theory Spec2Isabelle
  imports Main "HOL-Library.Sublist" "HOL-Library.AList"
begin

section \<open>Python values used by \<open>utils.py\<close>\<close>

text \<open>
  The exceptions the modelled code can raise.  Every function of the model that can raise
  returns \<open>error + 'a\<close>, with \<open>Inl\<close> for the exception.
\<close>

datatype error =
    TypeError
  | IndexError
  | KeyError
  | FileNotFoundError
  | NotADirectoryError
  | IsADirectoryError
  | FileExistsError
  | SameFileError

subsection \<open>Strings\<close>

text \<open>
  \<open>str.lower()\<close>, on the ASCII letters (a HOL \<open>char\<close> is a byte; the case mapping of
  code points beyond ASCII is not modelled).
\<close>

definition lower_char :: "char \<Rightarrow> char" where
  "lower_char c =
     (case map_of (zip ''ABCDEFGHIJKLMNOPQRSTUVWXYZ'' ''abcdefghijklmnopqrstuvwxyz'') c of
        None \<Rightarrow> c
      | Some d \<Rightarrow> d)"

definition lower :: "string \<Rightarrow> string" where
  "lower s = map lower_char s"

text \<open>
  The operator \<open>p in s\<close> on two strings: \<open>p\<close> occurs in \<open>s\<close> as a contiguous substring.
\<close>

fun str_in :: "string \<Rightarrow> string \<Rightarrow> bool" where
  "str_in p [] = (p = [])"
| "str_in p (c # s) = (prefix p (c # s) \<or> str_in p s)"

subsection \<open>Rows of a CSV file\<close>

text \<open>
  \<open>csv.reader\<close> yields each line as a list of strings; \<open>row[i]\<close> raises \<open>IndexError\<close>
  when the line has too few fields.
\<close>

type_synonym row = "string list"

definition row_get :: "row \<Rightarrow> nat \<Rightarrow> error + string" where
  "row_get r i = (if i < length r then Inr (r ! i) else Inl IndexError)"

section \<open>\<open>get_label_id\<close>: the label resolver\<close>

text \<open>
  \<open>csv.DictReader\<close> over \<open>class_labels_indices.csv\<close>: the header names the three columns
  (\<open>index, id, display_name = reader.fieldnames\<close>) and every following line is read
  through these names.  The table is modelled after that step, one record per line, each
  line holding its three fields.
\<close>

record label_entry =
  index :: string
  mid :: string
  display_name :: string

text \<open>
  The two list comprehensions of \<open>get_label_id\<close>, then its reporting branches:
  \<^item> \<open>label_ids is None\<close> never holds for a list, so the first branch is dead;
  \<^item> with more than one match the list is printed on its own and returned;
  \<^item> otherwise \<open>"Label ID for ..." + label_ids\<close> adds a list to a string, which raises
    \<open>TypeError\<close> before the \<open>return\<close> is reached.
\<close>

definition matching_ids :: "label_entry list \<Rightarrow> string \<Rightarrow> bool \<Rightarrow> string list" where
  "matching_ids label_file class_name strict =
     (if strict
      then [mid r. r \<leftarrow> label_file, lower class_name = lower (display_name r)]
      else [mid r. r \<leftarrow> label_file, str_in (lower class_name) (lower (display_name r))])"

definition get_label_id :: "label_entry list \<Rightarrow> string \<Rightarrow> bool \<Rightarrow> error + string list" where
  "get_label_id label_file class_name strict =
     (let label_ids = matching_ids label_file class_name strict
      in if False then Inr label_ids
         else if length label_ids > 1 then Inr label_ids
         else Inl TypeError)"

text \<open>The label-index table of the specification's scenario.\<close>

definition scenario_table :: "label_entry list" where
  "scenario_table =
     [\<lparr>index = ''0'', mid = ''/m/09x0r'', display_name = ''Speech''\<rparr>,
      \<lparr>index = ''1'', mid = ''/m/02zsn'', display_name = ''Female speech, woman speaking''\<rparr>]"

section \<open>\<open>create_csv\<close>: the dataset filter\<close>

text \<open>
  \<open>set(row[3]).intersection(blacklisted_ids)\<close>: \<open>set(row[3])\<close> is the set of characters
  of the label field, and \<open>intersection\<close> hashes every element of its argument to look
  it up.  \<open>blacklisted_ids\<close> is a list of the lists returned by \<open>get_label_id\<close>, and a
  list is unhashable, so the first element raises \<open>TypeError\<close>.
\<close>

fun set_intersection :: "char set \<Rightarrow> string list list \<Rightarrow> error + char set" where
  "set_intersection s [] = Inr {}"
| "set_intersection s (key # keys) = Inl TypeError"

text \<open>
  The condition of the comprehension for one row and one label:
  \<open>label in row[3] and bool(set(row[3]).intersection(blacklisted_ids)) is False\<close>.
  The right operand of \<open>and\<close> is evaluated only when the left one holds.
\<close>

definition keeps :: "string list list \<Rightarrow> row \<Rightarrow> string \<Rightarrow> error + bool" where
  "keeps blacklisted_ids r label =
     (case row_get r 3 of
        Inl e \<Rightarrow> Inl e
      | Inr field \<Rightarrow>
          if str_in label field
          then (case set_intersection (set field) blacklisted_ids of
                  Inl e \<Rightarrow> Inl e
                | Inr common \<Rightarrow> Inr ((common \<noteq> {}) = False))
          else Inr False)"

text \<open>The inner loop \<open>for label in label_id\<close> for one row.\<close>

fun row_copies :: "string list list \<Rightarrow> row \<Rightarrow> string list \<Rightarrow> error + row list" where
  "row_copies blacklisted_ids r [] = Inr []"
| "row_copies blacklisted_ids r (label # labels) =
     (case keeps blacklisted_ids r label of
        Inl e \<Rightarrow> Inl e
      | Inr b \<Rightarrow>
          (case row_copies blacklisted_ids r labels of
             Inl e \<Rightarrow> Inl e
           | Inr out \<Rightarrow> Inr (if b then r # out else out)))"

text \<open>
  The outer loop \<open>for row in reader\<close>: the list \<open>to_write\<close> that \<open>create_csv\<close> hands to
  \<open>writer.writerows\<close>.  An exception leaves the comprehension, so nothing is written.
\<close>

fun to_write :: "string list \<Rightarrow> string list list \<Rightarrow> row list \<Rightarrow> error + row list" where
  "to_write label_id blacklisted_ids [] = Inr []"
| "to_write label_id blacklisted_ids (r # rows) =
     (case row_copies blacklisted_ids r label_id of
        Inl e \<Rightarrow> Inl e
      | Inr out \<Rightarrow>
          (case to_write label_id blacklisted_ids rows of
             Inl e \<Rightarrow> Inl e
           | Inr outs \<Rightarrow> Inr (out @ outs)))"

text \<open>
  Lines 55 and 56 of \<open>create_csv\<close> take both arguments of the comprehension from
  \<open>get_label_id\<close>: the wanted identifiers of the class, and one list of identifiers for
  every blacklisted class (\<open>[get_label_id(c, args.strict) for c in args.blacklist]\<close>).
\<close>

fun blacklist_ids :: "label_entry list \<Rightarrow> string list \<Rightarrow> bool \<Rightarrow> error + string list list" where
  "blacklist_ids label_file [] strict = Inr []"
| "blacklist_ids label_file (blacklisted_class # classes) strict =
     (case get_label_id label_file blacklisted_class strict of
        Inl e \<Rightarrow> Inl e
      | Inr ids \<Rightarrow>
          (case blacklist_ids label_file classes strict of
             Inl e \<Rightarrow> Inl e
           | Inr rest \<Rightarrow> Inr (ids # rest)))"

definition create_csv ::
  "label_entry list \<Rightarrow> string \<Rightarrow> string list \<Rightarrow> bool \<Rightarrow> row list \<Rightarrow> error + row list" where
  "create_csv label_file class_name blacklist strict dataset =
     (case get_label_id label_file class_name strict of
        Inl e \<Rightarrow> Inl e
      | Inr label_id \<Rightarrow>
          (case blacklist_ids label_file blacklist strict of
             Inl e \<Rightarrow> Inl e
           | Inr blacklisted_ids \<Rightarrow> to_write label_id blacklisted_ids dataset))"

text \<open>
  A label index in which the class names \<open>speech\<close> and \<open>human\<close> match two entries each,
  so that \<open>get_label_id\<close> returns for both.
\<close>

definition human_table :: "label_entry list" where
  "human_table =
     [\<lparr>index = ''0'', mid = ''/m/09x0r'', display_name = ''Speech''\<rparr>,
      \<lparr>index = ''1'', mid = ''/m/02zsn'', display_name = ''Female speech, woman speaking''\<rparr>,
      \<lparr>index = ''2'', mid = ''/m/0dgw9r'', display_name = ''Human sounds''\<rparr>,
      \<lparr>index = ''3'', mid = ''/m/09l8g'', display_name = ''Human voice''\<rparr>]"

text \<open>The metadata row of the specification's scenario.\<close>

definition scenario_row :: row where
  "scenario_row = [''abc123'', ''0'', ''10'', ''/m/09x0r,/m/0dgw9r'']"

section \<open>\<open>get_yt_ids\<close>: the identifier grouper\<close>

text \<open>
  A Python \<open>dict\<close> keeps its keys in insertion order: an association list with
  \<open>AList.update\<close> for \<open>d[k] = v\<close> (an existing key keeps its place, a new one goes to
  the end), \<open>map_of\<close> for \<open>d[k]\<close> and \<open>AList.delete\<close> for \<open>d.pop(k)\<close>.
\<close>

type_synonym 'v dict = "(string \<times> 'v) list"

definition dict_get :: "'v dict \<Rightarrow> string \<Rightarrow> error + 'v" where
  "dict_get d k = (case map_of d k of None \<Rightarrow> Inl KeyError | Some v \<Rightarrow> Inr v)"

text \<open>\<open>{label: [] for label in label_ids}\<close>\<close>

fun empty_lists :: "string list \<Rightarrow> string list dict \<Rightarrow> string list dict" where
  "empty_lists [] d = d"
| "empty_lists (label # labels) d = empty_lists labels (AList.update label [] d)"

text \<open>
  One step of the comprehension of line 130:
  \<open>yt_ids[label].append(row[0])\<close> when \<open>label in row[3]\<close>.
\<close>

definition append_id :: "row \<Rightarrow> string \<Rightarrow> string list dict \<Rightarrow> error + string list dict" where
  "append_id r label yt_ids =
     (case row_get r 3 of
        Inl e \<Rightarrow> Inl e
      | Inr field \<Rightarrow>
          if str_in label field
          then (case dict_get yt_ids label of
                  Inl e \<Rightarrow> Inl e
                | Inr ids \<Rightarrow>
                    (case row_get r 0 of
                       Inl e \<Rightarrow> Inl e
                     | Inr yt \<Rightarrow> Inr (AList.update label (ids @ [yt]) yt_ids)))
          else Inr yt_ids)"

fun collect_row :: "row \<Rightarrow> string list \<Rightarrow> string list dict \<Rightarrow> error + string list dict" where
  "collect_row r [] yt_ids = Inr yt_ids"
| "collect_row r (label # labels) yt_ids =
     (case append_id r label yt_ids of
        Inl e \<Rightarrow> Inl e
      | Inr yt_ids' \<Rightarrow> collect_row r labels yt_ids')"

fun collect :: "row list \<Rightarrow> string list \<Rightarrow> string list dict \<Rightarrow> error + string list dict" where
  "collect [] label_ids yt_ids = Inr yt_ids"
| "collect (r # rows) label_ids yt_ids =
     (case collect_row r label_ids yt_ids of
        Inl e \<Rightarrow> Inl e
      | Inr yt_ids' \<Rightarrow> collect rows label_ids yt_ids')"

text \<open>
  The reporting loop \<open>for label in yt_ids\<close>.  For a label with an empty list the entry is
  popped, and the next statement but one, \<open>print(yt_ids[label])\<close>, looks the popped key up:
  \<open>KeyError\<close>.  The loop therefore only gets past a label whose list is non-empty, and
  until it raises the dictionary is the one it started with, so the keys it walks are those
  of the start.
\<close>

fun report :: "string list \<Rightarrow> string list dict \<Rightarrow> error + string list dict" where
  "report [] yt_ids = Inr yt_ids"
| "report (label # labels) yt_ids =
     (case dict_get yt_ids label of
        Inl e \<Rightarrow> Inl e
      | Inr ids \<Rightarrow>
          (let yt_ids' = (if ids = [] then AList.delete label yt_ids else yt_ids)
           in case dict_get yt_ids' label of
                Inl e \<Rightarrow> Inl e
              | Inr shown \<Rightarrow> report labels yt_ids'))"

definition get_yt_ids :: "string list \<Rightarrow> row list \<Rightarrow> error + string list dict" where
  "get_yt_ids label_ids dataset =
     (case collect dataset label_ids (empty_lists label_ids []) of
        Inl e \<Rightarrow> Inl e
      | Inr yt_ids \<Rightarrow> report (map fst yt_ids) yt_ids)"

text \<open>
  What the comprehensions compute for one row when nothing is raised: the number of
  requested labels found in the row's label field, and the identifiers one row adds to
  the list of one label.  Both read \<open>row[3]\<close>; they are used for rows that have it.
\<close>

definition matches :: "string list \<Rightarrow> row \<Rightarrow> nat" where
  "matches label_id r = length (filter (\<lambda>label. str_in label (r ! 3)) label_id)"

definition row_ids :: "string list \<Rightarrow> string \<Rightarrow> row \<Rightarrow> string list" where
  "row_ids label_ids label r =
     (if str_in label (r ! 3) then replicate (count_list label_ids label) (r ! 0) else [])"

section \<open>\<open>sort_files\<close>: the file organizer\<close>

subsection \<open>The file system\<close>

text \<open>
  \<open>sort_files\<close> works on the file system through \<open>os.path.exists\<close>, \<open>os.makedirs\<close>,
  \<open>os.listdir\<close> and \<open>shutil.copyfile\<close>.  The file system is a table from paths to
  nodes, a path being the list of its components; the table keeps the order in which
  nodes were created, which stands for the arbitrary order of \<open>os.listdir\<close>.  In a real
  file system every node lies in a directory; the functions below create nodes only in
  directories, and no property proved here assumes it of the initial table.
  Symbolic and hard links, permissions and \<open>..\<close> are not modelled (\<open>..\<close> is a name like
  any other).
\<close>

datatype node = File string | Dir

type_synonym path = "string list"

type_synonym filesystem = "(path \<times> node) list"

text \<open>
  A path string is cut at its slashes; empty components and \<open>.\<close> name no step.  An
  absolute path keeps an empty first component, so that \<open>/a\<close> and \<open>a\<close> differ; where
  the working directory lies below the root is not modelled.
\<close>

fun split_slash :: "string \<Rightarrow> string list" where
  "split_slash [] = [[]]"
| "split_slash (c # s) =
     (if c = CHR ''/'' then [] # split_slash s
      else (case split_slash s of [] \<Rightarrow> [[c]] | w # ws \<Rightarrow> (c # w) # ws))"

definition path_of :: "string \<Rightarrow> path" where
  "path_of s =
     (if take 1 s = ''/'' then [[]] else []) @
     filter (\<lambda>c. c \<noteq> [] \<and> c \<noteq> ''.'') (split_slash s)"

text \<open>The working directory \<open>[]\<close> and the root \<open>[[]]\<close> are directories that always exist.\<close>

definition lookup :: "filesystem \<Rightarrow> path \<Rightarrow> node option" where
  "lookup fs p = (if p = [] \<or> p = [[]] then Some Dir else map_of fs p)"

text \<open>\<open>os.path.exists(s)\<close>\<close>

definition path_exists :: "filesystem \<Rightarrow> string \<Rightarrow> bool" where
  "path_exists fs s = (lookup fs (path_of s) \<noteq> None)"








subsection \<open>The function\<close>






subsection \<open>The copies of a run\<close>










section \<open>Properties of the resolver\<close>

lemma str_in_sublist: "str_in p s \<longleftrightarrow> sublist p s"
  by (induction s) (auto simp: sublist_Cons_right)

lemma get_label_id_returns:
  "get_label_id label_file class_name strict = Inr ids \<longleftrightarrow>
     ids = matching_ids label_file class_name strict \<and> 1 < length ids"
  by (auto simp: get_label_id_def Let_def)

lemma get_label_id_raises:
  "get_label_id label_file class_name strict = Inl e \<longleftrightarrow>
     e = TypeError \<and> length (matching_ids label_file class_name strict) \<le> 1"
  by (auto simp: get_label_id_def Let_def)

lemma matching_ids_strict_subset:
  "set (matching_ids label_file class_name True) \<subseteq> set (matching_ids label_file class_name False)"
proof -
  have "str_in (lower class_name) (lower class_name)"
    by (simp add: str_in_sublist)
  then show ?thesis
    by (auto simp: matching_ids_def)
qed

lemma matching_ids_set:
  "set (matching_ids label_file class_name True) =
     {mid r | r. r \<in> set label_file \<and> lower class_name = lower (display_name r)}"
  "set (matching_ids label_file class_name False) =
     {mid r | r. r \<in> set label_file \<and> sublist (lower class_name) (lower (display_name r))}"
  by (auto simp: matching_ids_def str_in_sublist)

text \<open>
  C3.  A class name that matches no entry of the label index makes the resolver raise
  \<open>TypeError\<close>, with either setting of \<open>strict\<close>: it does not return the empty list.
\<close>

theorem get_label_id_no_match_raises:
  "matching_ids scenario_table ''violin'' True = [] \<and>
   matching_ids scenario_table ''violin'' False = [] \<and>
   get_label_id scenario_table ''violin'' True = Inl TypeError \<and>
   get_label_id scenario_table ''violin'' False = Inl TypeError"
  by (simp add: get_label_id_def matching_ids_def scenario_table_def lower_def lower_char_def)

text \<open>
  C4.  With exactly one entry whose display name equals the class name, the strict
  resolver raises \<open>TypeError\<close> instead of returning that entry's identifier, and so does
  the non-strict one.
\<close>

theorem get_label_id_single_match_raises:
  "matching_ids scenario_table ''speech'' True = [''/m/09x0r''] \<and>
   get_label_id scenario_table ''speech'' True = Inl TypeError \<and>
   matching_ids [\<lparr>index = ''0'', mid = ''/m/09x0r'', display_name = ''Speech''\<rparr>] ''speech'' False
     = [''/m/09x0r''] \<and>
   get_label_id [\<lparr>index = ''0'', mid = ''/m/09x0r'', display_name = ''Speech''\<rparr>] ''speech'' False
     = Inl TypeError"
  by (simp add: get_label_id_def matching_ids_def scenario_table_def lower_def lower_char_def)

text \<open>
  C5.  On the scenario's table, resolving \<open>female speech\<close> without \<open>strict\<close> raises
  \<open>TypeError\<close> (one match); resolving \<open>speech\<close> returns both identifiers.
\<close>

theorem get_label_id_scenario:
  "get_label_id scenario_table ''female speech'' False = Inl TypeError \<and>
   matching_ids scenario_table ''female speech'' False = [''/m/02zsn''] \<and>
   get_label_id scenario_table ''speech'' False = Inr [''/m/09x0r'', ''/m/02zsn'']"
  by (simp add: get_label_id_def matching_ids_def scenario_table_def lower_def lower_char_def)

section \<open>Properties of the dataset filter\<close>

lemma count_list_replicate: "count_list (replicate n x) y = (if x = y then n else 0)"
  by (induction n) auto

lemma keeps_Inr:
  "keeps bl r label = Inr b \<Longrightarrow> 3 < length r \<and> b = str_in label (r ! 3) \<and> (b \<longrightarrow> bl = [])"
  by (cases bl) (auto simp: keeps_def row_get_def split: if_splits sum.splits)

lemma row_copies_Inr:
  "row_copies bl r labels = Inr out \<Longrightarrow>
     out = replicate (length (filter (\<lambda>l. str_in l (r ! 3)) labels)) r"
proof (induction labels arbitrary: out)
  case Nil
  then show ?case by simp
next
  case (Cons l ls)
  then show ?case
    by (auto split: sum.splits dest!: keeps_Inr)
qed

lemma to_write_Inr:
  "to_write label_id bl rows = Inr out \<Longrightarrow>
     out = concat (map (\<lambda>r. replicate (matches label_id r) r) rows)"
proof (induction rows arbitrary: out)
  case Nil
  then show ?case by simp
next
  case (Cons a rows)
  then show ?case
    by (auto split: sum.splits dest!: row_copies_Inr simp: matches_def)
qed

lemma count_list_copies:
  "count_list (concat (map (\<lambda>r. replicate (f r) r) rows)) x = count_list rows x * f x"
  by (induction rows) (auto simp: count_list_append count_list_replicate)

lemma keeps_no_blacklist:
  "3 < length r \<Longrightarrow> keeps [] r label = Inr (str_in label (r ! 3))"
  by (simp add: keeps_def row_get_def)

lemma row_copies_no_blacklist:
  "3 < length r \<Longrightarrow> \<exists>out. row_copies [] r labels = Inr out"
  by (induction labels) (auto simp: keeps_no_blacklist)

lemma to_write_no_blacklist:
  "\<forall>r \<in> set rows. 3 < length r \<Longrightarrow> \<exists>out. to_write label_id [] rows = Inr out"
proof (induction rows)
  case Nil
  then show ?case by simp
next
  case (Cons a rows)
  then obtain o1 o2 where "row_copies [] a label_id = Inr o1" "to_write label_id [] rows = Inr o2"
    using row_copies_no_blacklist[of a label_id] by auto
  then show ?case by simp
qed

lemma row_copies_fields:
  "row_copies bl r labels = Inr out \<Longrightarrow> labels \<noteq> [] \<Longrightarrow> 3 < length r"
  by (cases labels) (auto split: sum.splits dest: keeps_Inr)

lemma to_write_fields:
  "to_write label_id bl rows = Inr out \<Longrightarrow> label_id \<noteq> [] \<Longrightarrow> \<forall>r \<in> set rows. 3 < length r"
  by (induction rows arbitrary: out) (auto split: sum.splits dest: row_copies_fields)

lemma row_copies_blacklist:
  "bl \<noteq> [] \<Longrightarrow> row_copies bl r labels = Inr out \<Longrightarrow> out = []"
  by (induction labels arbitrary: out) (auto split: sum.splits dest!: keeps_Inr)

lemma to_write_blacklist_empty_output:
  "blacklisted_ids \<noteq> [] \<Longrightarrow> to_write label_id blacklisted_ids rows = Inr out \<Longrightarrow> out = []"
  by (induction rows arbitrary: out) (auto split: sum.splits dest: row_copies_blacklist)

lemma keeps_blacklist_raises:
  "bl \<noteq> [] \<Longrightarrow> 3 < length r \<Longrightarrow> str_in label (r ! 3) \<Longrightarrow> keeps bl r label = Inl TypeError"
  by (cases bl) (auto simp: keeps_def row_get_def)

text \<open>
  C10.  Whenever the filter produces its output, every input row stands in it once for
  each requested label identifier found in the row's label field, in input order: a row
  with two or more matching identifiers is written that many times, and a row that is
  written exactly once has exactly one matching identifier.  (When a label is requested,
  every row of such a run has its four fields.  The filter does produce its output when
  there is no blacklist and every row has four fields: \<open>to_write_no_blacklist\<close>.)
\<close>

theorem dataset_filter_copies:
  assumes "to_write label_id blacklisted_ids rows = Inr out"
  shows "out = concat (map (\<lambda>r. replicate (matches label_id r) r) rows) \<and>
         (\<forall>r. count_list out r = count_list rows r * matches label_id r) \<and>
         (\<forall>r. count_list out r = 1 \<longrightarrow> matches label_id r = 1) \<and>
         (label_id \<noteq> [] \<longrightarrow> (\<forall>r \<in> set rows. 3 < length r))"
proof -
  have out: "out = concat (map (\<lambda>r. replicate (matches label_id r) r) rows)"
    using assms by (rule to_write_Inr)
  have cnt: "count_list out r = count_list rows r * matches label_id r" for r
    unfolding out by (rule count_list_copies)
  have one: "matches label_id r = 1" if "count_list out r = 1" for r
    using that cnt[of r] by simp
  have "\<forall>r \<in> set rows. 3 < length r" if "label_id \<noteq> []"
    using assms that by (rule to_write_fields)
  with out cnt one show ?thesis by blast
qed

theorem dataset_filter_copies_witness:
  "to_write [''/m/09x0r'', ''/m/0dgw9r''] [] [scenario_row] = Inr [scenario_row, scenario_row] \<and>
   matches [''/m/09x0r'', ''/m/0dgw9r''] scenario_row = 2 \<and>
   count_list [scenario_row, scenario_row] scenario_row = 2"
proof -
  have run: "to_write [''/m/09x0r'', ''/m/0dgw9r''] [] [scenario_row] = Inr [scenario_row, scenario_row]"
    by (simp add: keeps_def row_get_def scenario_row_def)
  have m: "matches [''/m/09x0r'', ''/m/0dgw9r''] scenario_row = 2"
    by (simp add: matches_def scenario_row_def)
  from dataset_filter_copies[OF run]
  have "count_list [scenario_row, scenario_row] scenario_row =
          count_list [scenario_row] scenario_row * matches [''/m/09x0r'', ''/m/0dgw9r''] scenario_row"
    by blast
  with m run show ?thesis by simp
qed

text \<open>
  C1.  The class \<open>speech\<close> resolves to the wanted identifiers \<open>/m/09x0r\<close> and \<open>/m/02zsn\<close>, the
  blacklisted class \<open>human\<close> to \<open>/m/0dgw9r\<close> and \<open>/m/09l8g\<close>.  Without a blacklist
  \<open>create_csv\<close> keeps the scenario's row.  With the blacklist it raises \<open>TypeError\<close> instead
  of leaving the row out, and it raises as well on a row that carries only a wanted
  identifier, which the blacklist should let through.
\<close>

theorem create_csv_blacklist_raises:
  "get_label_id human_table ''speech'' False = Inr [''/m/09x0r'', ''/m/02zsn''] \<and>
   blacklist_ids human_table [''human''] False = Inr [[''/m/0dgw9r'', ''/m/09l8g'']] \<and>
   create_csv human_table ''speech'' [] False [scenario_row] = Inr [scenario_row] \<and>
   create_csv human_table ''speech'' [''human''] False [scenario_row] = Inl TypeError \<and>
   to_write [''/m/09x0r'', ''/m/02zsn''] [[''/m/0dgw9r'', ''/m/09l8g'']] [scenario_row]
     = Inl TypeError \<and>
   create_csv human_table ''speech'' [''human''] False [[''xyz789'', ''0'', ''10'', ''/m/09x0r'']]
     = Inl TypeError"
  by (simp add: create_csv_def get_label_id_def matching_ids_def human_table_def lower_def
      lower_char_def keeps_def row_get_def scenario_row_def)

text \<open>
  C6.  With the wanted class \<open>speech\<close> blacklisted as well, both sides resolve to
  \<open>/m/09x0r\<close> and \<open>/m/02zsn\<close>, and on the scenario's row, which carries a wanted identifier,
  \<open>create_csv\<close> raises \<open>TypeError\<close>: it does not return the empty list.
\<close>

theorem create_csv_same_blacklist_raises:
  "get_label_id scenario_table ''speech'' False = Inr [''/m/09x0r'', ''/m/02zsn''] \<and>
   blacklist_ids scenario_table [''speech''] False = Inr [[''/m/09x0r'', ''/m/02zsn'']] \<and>
   create_csv scenario_table ''speech'' [''speech''] False [scenario_row] = Inl TypeError \<and>
   to_write [''/m/09x0r'', ''/m/02zsn''] [[''/m/09x0r'', ''/m/02zsn'']] [scenario_row]
     = Inl TypeError"
  by (simp add: create_csv_def get_label_id_def matching_ids_def scenario_table_def lower_def
      lower_char_def keeps_def row_get_def scenario_row_def)

section \<open>Properties of the identifier grouper\<close>

lemma map_of_empty_lists:
  "map_of (empty_lists labels d) k = (if k \<in> set labels then Some [] else map_of d k)"
  by (induction labels arbitrary: d) (auto simp: update_conv')

lemma distinct_empty_lists:
  "distinct (map fst d) \<Longrightarrow> distinct (map fst (empty_lists labels d))"
  by (induction labels arbitrary: d) (auto simp: distinct_update)

lemma map_of_Some_key: "map_of d k = Some v \<Longrightarrow> k \<in> fst ` set d"
  by (metis domI dom_map_of_conv_image_fst)

lemma append_id_Inr:
  assumes "append_id r label d = Inr d'"
  shows "map fst d' = map fst d"
    and "map_of d' k = map_option (\<lambda>ids. ids @ (if k = label \<and> str_in label (r ! 3) then [r ! 0] else [])) (map_of d k)"
  using assms
  by (auto simp: append_id_def row_get_def dict_get_def update_keys update_conv' option.map_ident
      split: sum.splits if_splits option.splits dest: map_of_Some_key)

lemma collect_row_Inr:
  assumes "collect_row r labels d = Inr d'"
  shows "map fst d' = map fst d \<and>
         map_of d' k = map_option (\<lambda>ids. ids @ row_ids labels k r) (map_of d k)"
  using assms
proof (induction labels arbitrary: d)
  case Nil
  then show ?case by (simp add: row_ids_def option.map_ident)
next
  case (Cons l ls)
  from Cons.prems obtain d1 where 1: "append_id r l d = Inr d1" and 2: "collect_row r ls d1 = Inr d'"
    by (auto split: sum.splits)
  show ?case
    using Cons.IH[OF 2] append_id_Inr[OF 1]
    by (cases "map_of d k") (auto simp: row_ids_def replicate_append_same)
qed

lemma collect_Inr:
  assumes "collect rows labels d = Inr d'"
  shows "map fst d' = map fst d \<and>
         map_of d' k = map_option (\<lambda>ids. ids @ concat (map (row_ids labels k) rows)) (map_of d k)"
  using assms
proof (induction rows arbitrary: d)
  case Nil
  then show ?case by (simp add: option.map_ident)
next
  case (Cons r rows)
  from Cons.prems obtain d1 where 1: "collect_row r labels d = Inr d1" and 2: "collect rows labels d1 = Inr d'"
    by (auto split: sum.splits)
  show ?case
    using Cons.IH[OF 2] collect_row_Inr[OF 1, of k]
    by (cases "map_of d k") auto
qed

lemma report_Inr:
  "report labels d = Inr d' \<Longrightarrow> d' = d \<and> (\<forall>l \<in> set labels. \<exists>ids. map_of d l = Some ids \<and> ids \<noteq> [])"
proof (induction labels arbitrary: d)
  case Nil
  then show ?case by simp
next
  case (Cons l ls)
  then show ?case
    by (auto simp: dict_get_def Let_def delete_conv' split: option.splits if_splits)
qed

lemma append_id_fields: "append_id r label d = Inr d' \<Longrightarrow> 3 < length r"
  by (auto simp: append_id_def row_get_def split: sum.splits if_splits)

lemma collect_row_fields:
  "collect_row r labels d = Inr d' \<Longrightarrow> labels \<noteq> [] \<Longrightarrow> 3 < length r"
  by (cases labels) (auto split: sum.splits dest: append_id_fields)

lemma collect_fields:
  "collect rows labels d = Inr d' \<Longrightarrow> labels \<noteq> [] \<Longrightarrow> \<forall>r \<in> set rows. 3 < length r"
  by (induction rows arbitrary: d) (auto split: sum.splits dest: collect_row_fields)

lemma get_yt_ids_returns:
  assumes "get_yt_ids label_ids dataset = Inr yt_ids"
  shows "set (map fst yt_ids) = set label_ids" and "\<forall>(label, ids) \<in> set yt_ids. ids \<noteq> []"
proof -
  from assms obtain d where c: "collect dataset label_ids (empty_lists label_ids []) = Inr d"
    and r: "report (map fst d) d = Inr yt_ids"
    by (auto simp: get_yt_ids_def split: sum.splits)
  from report_Inr[OF r] have eq: "yt_ids = d"
    and ne: "\<forall>l \<in> set (map fst d). \<exists>ids. map_of d l = Some ids \<and> ids \<noteq> []" by auto
  from collect_Inr[OF c] have keys: "map fst d = map fst (empty_lists label_ids [])" by auto
  have "dom (map_of (empty_lists label_ids [])) = set label_ids"
    by (auto simp: dom_def map_of_empty_lists)
  then have "set (map fst (empty_lists label_ids [])) = set label_ids"
    by (simp add: dom_map_of_conv_image_fst)
  with keys eq show "set (map fst yt_ids) = set label_ids" by simp
  have dist: "distinct (map fst d)"
    unfolding keys by (rule distinct_empty_lists) simp
  show "\<forall>(label, ids) \<in> set yt_ids. ids \<noteq> []"
  proof (clarify)
    fix label assume a: "(label, []) \<in> set yt_ids"
    with dist eq have "map_of d label = Some []" by simp
    moreover from a eq have "label \<in> set (map fst d)" by force
    ultimately show False using ne by auto
  qed
qed

text \<open>
  C8, as the code has it.  Each value of the returned dictionary is a list: the media
  identifier of every row whose label field holds the label, in row order, once for each
  time the label stands in the requested labels.  Nothing collapses duplicates.  The
  label is one of the requested labels and every row of the dataset has its four fields.
\<close>

theorem get_yt_ids_lists:
  assumes "get_yt_ids label_ids dataset = Inr yt_ids" and "(label, ids) \<in> set yt_ids"
  shows "ids = concat (map (row_ids label_ids label) dataset) \<and>
         label \<in> set label_ids \<and> (\<forall>r \<in> set dataset. 3 < length r)"
proof -
  from assms(1) obtain d where c: "collect dataset label_ids (empty_lists label_ids []) = Inr d"
    and r: "report (map fst d) d = Inr yt_ids"
    by (auto simp: get_yt_ids_def split: sum.splits)
  from report_Inr[OF r] have eq: "yt_ids = d" by simp
  from collect_Inr[OF c] have keys: "map fst d = map fst (empty_lists label_ids [])"
    and vals: "map_of d label = map_option (\<lambda>ids. ids @ concat (map (row_ids label_ids label) dataset))
                 (map_of (empty_lists label_ids []) label)"
    by auto
  have "distinct (map fst d)"
    unfolding keys by (rule distinct_empty_lists) simp
  with assms(2) eq have some: "map_of d label = Some ids" by simp
  with vals have ids: "ids = concat (map (row_ids label_ids label) dataset)"
    and mem: "label \<in> set label_ids"
    by (auto simp: map_of_empty_lists split: if_splits)
  from mem have "label_ids \<noteq> []" by auto
  with c have "\<forall>r \<in> set dataset. 3 < length r" by (rule collect_fields)
  with ids mem show ?thesis by blast
qed

theorem get_yt_ids_lists_witness:
  "get_yt_ids [''/m/09x0r'', ''/m/0dgw9r'']
     [scenario_row, [''xyz789'', ''0'', ''10'', ''/m/09x0r'']]
     = Inr [(''/m/09x0r'', [''abc123'', ''xyz789'']), (''/m/0dgw9r'', [''abc123''])] \<and>
   [''abc123'', ''xyz789''] =
     concat (map (row_ids [''/m/09x0r'', ''/m/0dgw9r''] ''/m/09x0r'')
       [scenario_row, [''xyz789'', ''0'', ''10'', ''/m/09x0r'']])"
proof -
  have run: "get_yt_ids [''/m/09x0r'', ''/m/0dgw9r'']
               [scenario_row, [''xyz789'', ''0'', ''10'', ''/m/09x0r'']]
             = Inr [(''/m/09x0r'', [''abc123'', ''xyz789'']), (''/m/0dgw9r'', [''abc123''])]"
    by (simp add: get_yt_ids_def dict_get_def append_id_def row_get_def scenario_row_def)
  have "(''/m/09x0r'', [''abc123'', ''xyz789''])
          \<in> set [(''/m/09x0r'', [''abc123'', ''xyz789'']), (''/m/0dgw9r'', [''abc123''])]"
    by simp
  from get_yt_ids_lists[OF run this] run show ?thesis by simp
qed

text \<open>
  C8, as the claim states it, fails: a media identifier that stands in two matching rows
  is in the label's list twice.
\<close>

theorem get_yt_ids_keeps_duplicates:
  "get_yt_ids [''/m/09x0r''] [scenario_row, scenario_row]
     = Inr [(''/m/09x0r'', [''abc123'', ''abc123''])] \<and>
   \<not> distinct [''abc123'', ''abc123'']"
  by (simp add: get_yt_ids_def dict_get_def append_id_def row_get_def scenario_row_def)

text \<open>
  C2.  A requested label that collects no media identifier makes the grouper raise
  \<open>KeyError\<close>, whether or not another label collects some: it does not return a
  dictionary without that label.
\<close>

theorem get_yt_ids_empty_label_raises:
  "get_yt_ids [''/m/09x0r''] [] = Inl KeyError \<and>
   get_yt_ids [''/m/09x0r'', ''/m/02zsn''] [scenario_row] = Inl KeyError"
  by (simp add: get_yt_ids_def dict_get_def append_id_def row_get_def scenario_row_def)

section \<open>Properties of the file organizer\<close>

subsection \<open>Paths and directories\<close>

lemma split_slash_not_Nil [simp]: "split_slash s \<noteq> []"
  by (induction s) (auto split: list.splits)







lemma lookup_map_of: "p \<noteq> [] \<Longrightarrow> p \<noteq> [[]] \<Longrightarrow> lookup fs p = map_of fs p"
  by (simp add: lookup_def)






lemma path_exists_mono:
  "(\<And>q n. lookup fs q = Some n \<Longrightarrow> lookup fs' q = Some n) \<Longrightarrow> path_exists fs s \<Longrightarrow> path_exists fs' s"
  by (auto simp: path_exists_def)




subsection \<open>Sequences of copies\<close>
















subsection \<open>Runs of \<open>sort_files\<close>\<close>

















end
